theory Spec2Isabelle
  imports Complex_Main "HOL-Library.Sublist" "HOL-Library.AList"
begin

section \<open>The \<open>keadm debug get\<close> command: a shallow embedding of \<open>get.go\<close>\<close>

text \<open>
  The command reads the edge node's metadata store, selects records by
  namespace, name and label selector, rebuilds typed Kubernetes objects
  from the stored JSON documents and prints them. Go strings are byte
  strings and are modelled by \<open>string\<close>; every error return and every
  run-time panic of the source is a value of type \<open>error\<close>.
\<close>

subsection \<open>Errors\<close>

datatype error =
    SyntaxError                  \<comment> \<open>\<open>json.Unmarshal\<close>: the input is not JSON\<close>
  | UnmarshalTypeError           \<comment> \<open>\<open>json.Unmarshal\<close>: JSON value of the wrong shape for the target\<close>
  | StoreError string            \<comment> \<open>an error returned by the \<open>dao\<close> package\<close>
  | SelectorError string         \<comment> \<open>"Arguments in selector ... may not have more than one ..."\<close>
  | ParsingFailed string         \<comment> \<open>"Parsing failed, unrecognized type: %v."\<close>
  | QueryFailed string string    \<comment> \<open>"Query from database filed, type: %v,namespaces: %v."\<close>
  | NoResourceType               \<comment> \<open>"You must specify the type of resource to get."\<close>
  | UnrecognizedResourceType string  \<comment> \<open>"Unrecognized resource type: %v."\<close>
  | DatabaseNotExist string      \<comment> \<open>"EdgeCore database file %v not exist."\<close>
  | InitDBFailed string          \<comment> \<open>"Failed to initialize database: %v"\<close>
  | InvalidOutputFormat string   \<comment> \<open>"Invalid output format: %v, ..."\<close>
  | OnlyOneResource              \<comment> \<open>"You must specify only one resource."\<close>
  | Panic                        \<comment> \<open>a Go run-time panic\<close>

subsection \<open>The functions of package \<open>strings\<close> that the command calls\<close>

text \<open>\<open>strings.Contains(s, substr)\<close>; \<open>strings.Index(s, substr) != -1\<close> is the same test.\<close>

fun Contains :: "string \<Rightarrow> string \<Rightarrow> bool" where
  "Contains [] substr = (substr = [])"
| "Contains (c # cs) substr = (prefix substr (c # cs) \<or> Contains cs substr)"

text \<open>
  \<open>strings.Split(s, sep)\<close>: the pieces of \<open>s\<close> between the occurrences of
  \<open>sep\<close>, found from the left and not overlapping. \<open>splitFrom sep cur rest\<close>
  holds the piece read so far in \<open>cur\<close>. With an empty separator Go cuts
  after every character (the command never does that).
\<close>

fun splitFrom :: "string \<Rightarrow> string \<Rightarrow> string \<Rightarrow> string list" where
  "splitFrom sep cur [] = [cur]"
| "splitFrom sep cur (c # cs) =
     (if prefix sep (c # cs) then cur # splitFrom sep [] (drop (length sep - 1) cs)
      else splitFrom sep (cur @ [c]) cs)"

definition Split :: "string \<Rightarrow> string \<Rightarrow> string list" where
  "Split s sep = (if sep = [] then map (\<lambda>c. [c]) s else splitFrom sep [] s)"

text \<open>\<open>strings.Replace(s, old, new, 1)\<close>: the first occurrence of \<open>old\<close> replaced.\<close>

fun ReplaceFirst :: "string \<Rightarrow> string \<Rightarrow> string \<Rightarrow> string" where
  "ReplaceFirst [] old new = (if old = [] then new else [])"
| "ReplaceFirst (c # cs) old new =
     (if prefix old (c # cs) then new @ drop (length old) (c # cs)
      else c # ReplaceFirst cs old new)"

subsection \<open>Selector parsing\<close>

text \<open>\<open>type Selector struct { Key string; Value string; Exist bool }\<close>\<close>

record Selector =
  Key :: string
  Value :: string
  Exist :: bool

text \<open>
  The loop of \<open>SplitSelectorParameters\<close> over the comma-separated labels.
  \<open>sel\<close> is declared once, outside the loop, and \<open>results\<close> grows by
  \<open>append\<close>.
\<close>

fun splitLabels :: "Selector \<Rightarrow> Selector list \<Rightarrow> string list \<Rightarrow> error + Selector list" where
  "splitLabels sel results [] = Inr results"
| "splitLabels sel results (label # labels) =
     (if Contains label ''=='' then
        (let labs = Split label ''=='' in
         if length labs \<noteq> 2 then Inl (SelectorError ''=='')
         else (let sel = sel\<lparr>Selector.Key := labs ! 0, Selector.Value := labs ! 1, Exist := True\<rparr>
               in splitLabels sel (results @ [sel]) labels))
      else if Contains label ''!='' then
        (let labs = Split label ''!='' in
         if length labs \<noteq> 2 then Inl (SelectorError ''!='')
         else (let sel = sel\<lparr>Selector.Key := labs ! 0, Selector.Value := labs ! 1, Exist := False\<rparr>
               in splitLabels sel (results @ [sel]) labels))
      else if Contains label ''='' then
        (let labs = Split label ''='' in
         if length labs \<noteq> 2 then Inl (SelectorError ''='')
         else (let sel = sel\<lparr>Selector.Key := labs ! 0, Selector.Value := labs ! 1, Exist := True\<rparr>
               in splitLabels sel (results @ [sel]) labels))
      else splitLabels sel results labels)"

definition SplitSelectorParameters :: "string \<Rightarrow> error + Selector list" where
  "SplitSelectorParameters args =
     splitLabels \<lparr>Selector.Key = [], Selector.Value = [], Exist = False\<rparr> [] (Split args '','')"

text \<open>
  The specification's reading of one term: the operator that decides it
  (\<open>==\<close> before \<open>!=\<close> before \<open>=\<close>) with the \<open>exists\<close> flag it gives, whether the
  term splits in two on that operator, and the clause it then denotes.
\<close>

definition spec_operator :: "string \<Rightarrow> (string \<times> bool) option" where
  "spec_operator label =
     (if Contains label ''=='' then Some (''=='', True)
      else if Contains label ''!='' then Some (''!='', False)
      else if Contains label ''='' then Some (''='', True)
      else None)"

definition spec_two_sided :: "string \<Rightarrow> bool" where
  "spec_two_sided label =
     (case spec_operator label of None \<Rightarrow> True
      | Some (opr, ex) \<Rightarrow> length (Split label opr) = 2)"

definition spec_clause :: "string \<Rightarrow> Selector option" where
  "spec_clause label =
     (case spec_operator label of None \<Rightarrow> None
      | Some (opr, ex) \<Rightarrow>
          Some \<lparr>Selector.Key = Split label opr ! 0, Selector.Value = Split label opr ! 1, Exist = ex\<rparr>)"

subsection \<open>JSON documents and Go maps\<close>

text \<open>
  What \<open>encoding/json\<close> decodes into an \<open>interface{}\<close>: \<open>nil\<close>, \<open>bool\<close>,
  \<open>float64\<close>, \<open>string\<close>, \<open>[]interface{}\<close> and \<open>map[string]interface{}\<close>.
  \<open>JObject kvs\<close> stands for the Go map \<open>map_of kvs\<close>.
\<close>

datatype json =
    JNull
  | JBool bool
  | JNumber rat
  | JString string
  | JArray "json list"
  | JObject "(string \<times> json) list"

text \<open>
  A variable of type \<open>map[string]interface{}\<close>: \<open>None\<close> is the nil map,
  \<open>Some kvs\<close> a map holding the entries \<open>kvs\<close>.
\<close>

type_synonym gomap = "(string \<times> json) list option"

text \<open>\<open>make(map[string]interface{})\<close>\<close>

definition makeMap :: gomap where
  "makeMap = Some []"

text \<open>\<open>m[k]\<close> read: the nil interface (\<open>JNull\<close>) for a missing key and for a nil map.\<close>

definition mapIndex :: "gomap \<Rightarrow> string \<Rightarrow> json" where
  "mapIndex m k =
     (case m of None \<Rightarrow> JNull
      | Some kvs \<Rightarrow> (case map_of kvs k of None \<Rightarrow> JNull | Some v \<Rightarrow> v))"

text \<open>The entry of a JSON object under a key, \<open>JNull\<close> when there is none.\<close>

fun field :: "json \<Rightarrow> string \<Rightarrow> json" where
  "field (JObject kvs) k = (case map_of kvs k of None \<Rightarrow> JNull | Some v \<Rightarrow> v)"
| "field j k = JNull"

text \<open>\<open>m[k] = v\<close>: an assignment to an entry of a nil map panics.\<close>

definition mapAssign :: "gomap \<Rightarrow> string \<Rightarrow> json \<Rightarrow> error + gomap" where
  "mapAssign m k v =
     (case m of None \<Rightarrow> Inl Panic | Some kvs \<Rightarrow> Inr (Some (AList.update k v kvs)))"

text \<open>
  \<open>json.Unmarshal\<close> of a JSON value into a variable of type
  \<open>map[string]interface{}\<close>. A JSON object is stored into the map the
  variable already holds, which keeps its other entries (a nil map is
  allocated first); \<open>null\<close> sets the variable to the nil map; every other
  JSON value is an \<open>UnmarshalTypeError\<close> and leaves the variable alone.
\<close>

definition storeMap :: "json \<Rightarrow> gomap \<Rightarrow> error + gomap" where
  "storeMap j m =
     (case j of
        JNull \<Rightarrow> Inr None
      | JObject kvs \<Rightarrow> Inr (Some (AList.merge (case m of None \<Rightarrow> [] | Some old \<Rightarrow> old) kvs))
      | _ \<Rightarrow> Inl UnmarshalTypeError)"

text \<open>The JSON value that \<open>json.Marshal\<close> renders for a map variable.\<close>

definition jsonOfMap :: "gomap \<Rightarrow> json" where
  "jsonOfMap m = (case m of None \<Rightarrow> JNull | Some kvs \<Rightarrow> JObject kvs)"

subsection \<open>The metadata store and the other collaborators\<close>

text \<open>
  Modelled from the spec: the row type \<open>dao.Meta\<close> of the metadata store,
  a record of the three strings \<open>Key\<close>, \<open>Type\<close> and \<open>Value\<close>; \<open>Key\<close> is
  \<open>namespace/resourceType/name\<close> and \<open>Value\<close> a serialized document.
\<close>

record Meta =
  Key :: string
  Type :: string
  Value :: string

text \<open>
  Modelled from the spec: the two operations of the metadata store, which
  package \<open>dao\<close> defines outside \<open>get.go\<close>. \<open>QueryAllMeta column condition\<close>
  is the scan, which returns the matching rows in store order.
  \<open>QueryMeta column condition\<close> is the lookup; the command takes the \<open>len\<close>
  of the slice it returns and hands the slice to \<open>json.Marshal\<close>, so the
  model holds each element as the JSON value that \<open>json.Marshal\<close> writes
  for it (a string for a row's value, an object for a whole row). Either
  may fail with an error.

  The other fields are the library functions the command calls; the
  theorems hold for every value of them.
  \<^item> \<open>jsonDecode\<close>: the JSON value a text denotes for \<open>json.Unmarshal\<close>,
    \<open>None\<close> for a text that is not JSON; \<open>jsonEncode\<close>: the text
    \<open>json.Marshal\<close> writes.
  \<^item> \<open>ParseResourceEdge\<close>: the first result (the namespace) of
    \<open>util.ParseResourceEdge(key, operation)\<close>; the command drops the others.
  \<^item> \<open>IsFileExist\<close> and \<open>InitDB\<close> (\<open>os.Stat\<close> and the \<open>orm\<close> calls),
    with \<open>Some msg\<close> for a failure of \<open>InitDB\<close>; \<open>ToLower\<close> is
    \<open>strings.ToLower\<close>.
\<close>

record env =
  jsonDecode :: "string \<Rightarrow> json option"
  jsonEncode :: "json \<Rightarrow> string"
  ParseResourceEdge :: "string \<Rightarrow> string \<Rightarrow> string"
  QueryAllMeta :: "string \<Rightarrow> string \<Rightarrow> error + Meta list"
  QueryMeta :: "string \<Rightarrow> string \<Rightarrow> error + json list"
  IsFileExist :: "string \<Rightarrow> bool"
  InitDB :: "string \<Rightarrow> string option"
  ToLower :: "string \<Rightarrow> string"

text \<open>\<open>json.Unmarshal([]byte(s), &m)\<close> for a map variable \<open>m\<close>.\<close>

definition UnmarshalMap :: "env \<Rightarrow> string \<Rightarrow> gomap \<Rightarrow> error + gomap" where
  "UnmarshalMap e s m =
     (case jsonDecode e s of None \<Rightarrow> Inl SyntaxError | Some j \<Rightarrow> storeMap j m)"

subsection \<open>Constants\<close>

definition ResourceTypeAll :: string where "ResourceTypeAll = ''all''"
definition ResourceTypePod :: string where "ResourceTypePod = ''pod''"
definition ResourceTypeService :: string where "ResourceTypeService = ''service''"
definition ResourceTypeSecret :: string where "ResourceTypeSecret = ''secret''"
definition ResourceTypeConfigmap :: string where "ResourceTypeConfigmap = ''configmap''"
definition ResourceTypeEndpoints :: string where "ResourceTypeEndpoints = ''endpoints''"

definition OutputFormatWIDE :: string where "OutputFormatWIDE = ''wide''"
definition OutputFormatJSON :: string where "OutputFormatJSON = ''json''"
definition OutputFormatYAML :: string where "OutputFormatYAML = ''yaml''"

text \<open>
  Modelled from the spec: the constants of the packages \<open>model\<close> and
  \<open>constants\<close>, which name the resource types of the store, the
  resource-type segment of a status key, the key separator and the query
  operation. The lemmas on the retrieval loop hold for every value of the
  status segments and of the separator.
\<close>

definition model_ResourceTypePod :: string where "model_ResourceTypePod = ''pod''"
definition model_ResourceTypeNode :: string where "model_ResourceTypeNode = ''node''"
definition model_ResourceTypeConfigmap :: string where "model_ResourceTypeConfigmap = ''configmap''"
definition model_ResourceTypeSecret :: string where "model_ResourceTypeSecret = ''secret''"
definition model_ResourceTypePodStatus :: string where "model_ResourceTypePodStatus = ''podstatus''"
definition model_ResourceTypeNodeStatus :: string where "model_ResourceTypeNodeStatus = ''nodestatus''"
definition model_QueryOperation :: string where "model_QueryOperation = ''query''"
definition constants_ResourceTypeEndpoints :: string where "constants_ResourceTypeEndpoints = ''endpoints''"
definition constants_ResourceTypeService :: string where "constants_ResourceTypeService = ''service''"
definition constants_ResourceSep :: string where "constants_ResourceSep = ''/''"

definition allowedFormats :: "string list" where
  "allowedFormats = [OutputFormatYAML, OutputFormatJSON, OutputFormatWIDE]"

text \<open>The table \<open>availableResources\<close>, in the order of the source.\<close>

definition availableResources :: "(string \<times> string) list" where
  "availableResources =
     [(''all'', [CHR 0x27] @ ''pod'' @ [CHR 0x27] @ '','' @ [CHR 0x27] @ ''service'' @ [CHR 0x27] @ '',''
         @ [CHR 0x27] @ ''secret'' @ [CHR 0x27] @ '','' @ [CHR 0x27] @ ''configmap'' @ [CHR 0x27] @ '',''
         @ [CHR 0x27] @ ''endpoints'' @ [CHR 0x27]),
      (''po'', [CHR 0x27] @ ''pod'' @ [CHR 0x27]),
      (''pod'', [CHR 0x27] @ ''pod'' @ [CHR 0x27]),
      (''pods'', [CHR 0x27] @ ''pod'' @ [CHR 0x27]),
      (''svc'', [CHR 0x27] @ ''service'' @ [CHR 0x27]),
      (''service'', [CHR 0x27] @ ''service'' @ [CHR 0x27]),
      (''services'', [CHR 0x27] @ ''service'' @ [CHR 0x27]),
      (''secret'', [CHR 0x27] @ ''secret'' @ [CHR 0x27]),
      (''secrets'', [CHR 0x27] @ ''secret'' @ [CHR 0x27]),
      (''cm'', [CHR 0x27] @ ''configmap'' @ [CHR 0x27]),
      (''configmap'', [CHR 0x27] @ ''configmap'' @ [CHR 0x27]),
      (''configmaps'', [CHR 0x27] @ ''configmap'' @ [CHR 0x27]),
      (''ep'', [CHR 0x27] @ ''endpoints'' @ [CHR 0x27]),
      (''endpoint'', [CHR 0x27] @ ''endpoints'' @ [CHR 0x27]),
      (''endpoints'', [CHR 0x27] @ ''endpoints'' @ [CHR 0x27])]"

subsection \<open>Validation\<close>

text \<open>\<open>GetOptions\<close>; \<open>OutputFormat\<close> is \<open>*g.PrintFlags.OutputFormat\<close>.\<close>

record GetOptions =
  AllNamespace :: bool
  Namespace :: string
  LabelSelector :: string
  DataPath :: string
  OutputFormat :: string

definition IsAllowedFormat :: "string \<Rightarrow> bool" where
  "IsAllowedFormat oFormat = (oFormat \<in> set allowedFormats)"

definition IsAvailableResources :: "string \<Rightarrow> bool" where
  "IsAvailableResources rsT = (map_of availableResources rsT \<noteq> None)"

text \<open>
  \<open>Validate\<close> returns the options it has updated (the output format in
  lower case) where the source returns \<open>nil\<close>.
\<close>

definition Validate :: "env \<Rightarrow> GetOptions \<Rightarrow> string list \<Rightarrow> error + GetOptions" where
  "Validate e g args =
     (if length args = 0 then Inl NoResourceType
      else if \<not> IsAvailableResources (args ! 0) then Inl (UnrecognizedResourceType (args ! 0))
      else if \<not> IsFileExist e (DataPath g) then Inl (DatabaseNotExist (DataPath g))
      else (case InitDB e (DataPath g) of
              Some msg \<Rightarrow> Inl (InitDBFailed msg)
            | None \<Rightarrow>
               (let g = (if length (OutputFormat g) > 0
                         then g\<lparr>OutputFormat := ToLower e (OutputFormat g)\<rparr> else g)
                in if length (OutputFormat g) > 0 \<and> \<not> IsAllowedFormat (OutputFormat g)
                   then Inl (InvalidOutputFormat (OutputFormat g))
                   else if args ! 0 = ResourceTypeAll \<and> length args \<ge> 2 then Inl OnlyOneResource
                   else Inr g)))"

subsection \<open>Record retrieval\<close>

text \<open>\<open>IsExistName\<close>: the loop sets \<open>value\<close> at every name the key contains.\<close>

definition IsExistName :: "string list \<Rightarrow> string \<Rightarrow> bool" where
  "IsExistName resNames name =
     foldl (\<lambda>value v. if Contains name v then True else value) False resNames"

text \<open>
  The loop of \<open>getPodsFromDatabase\<close> and of \<open>getNodeFromDatabase\<close>, which
  differ in the two resource types only: \<open>resType\<close> is the type of the base
  records and \<open>statusType\<close> the type segment of their status keys. The two
  maps (\<open>podJSON\<close> and \<open>podStatusJSON\<close> in the first function) are made
  once, before the loop. \<open>json.Marshal\<close> of the slice of status records
  writes a JSON array, which \<open>json.Unmarshal\<close> then reads back.
\<close>

fun getWithStatusLoop ::
  "env \<Rightarrow> GetOptions \<Rightarrow> string \<Rightarrow> string \<Rightarrow> string \<Rightarrow> string list \<Rightarrow>
   gomap \<Rightarrow> gomap \<Rightarrow> Meta list \<Rightarrow> Meta list \<Rightarrow> error + Meta list" where
  "getWithStatusLoop e g resType statusType resNS resNames resJSON statusJSON results [] =
     Inr results"
| "getWithStatusLoop e g resType statusType resNS resNames resJSON statusJSON results (v # vs) =
     (let namespaceParsed = ParseResourceEdge e (Meta.Key v) model_QueryOperation in
      if namespaceParsed \<noteq> resNS \<and> \<not> AllNamespace g then
        getWithStatusLoop e g resType statusType resNS resNames resJSON statusJSON results vs
      else if length resNames > 0 \<and> \<not> IsExistName resNames (Meta.Key v) then
        getWithStatusLoop e g resType statusType resNS resNames resJSON statusJSON results vs
      else
        (let statusKey = ReplaceFirst (Meta.Key v)
                           (constants_ResourceSep @ resType @ constants_ResourceSep)
                           (constants_ResourceSep @ statusType @ constants_ResourceSep) in
         case QueryMeta e ''key'' statusKey of
           Inl err \<Rightarrow> Inl err
         | Inr statusRecords \<Rightarrow>
             if length statusRecords \<le> 0 then
               getWithStatusLoop e g resType statusType resNS resNames resJSON statusJSON
                 (results @ [v]) vs
             else
               (case UnmarshalMap e (Meta.Value v) resJSON of
                  Inl err \<Rightarrow> Inl err
                | Inr resJSON \<Rightarrow>
                   (case storeMap (JArray statusRecords) statusJSON of
                      Inl err \<Rightarrow> Inl err
                    | Inr statusJSON \<Rightarrow>
                       (case mapAssign resJSON ''status'' (mapIndex statusJSON ''status'') of
                          Inl err \<Rightarrow> Inl err
                        | Inr resJSON \<Rightarrow>
                           (let v = v\<lparr>Meta.Value := jsonEncode e (jsonOfMap resJSON)\<rparr> in
                            getWithStatusLoop e g resType statusType resNS resNames
                              resJSON statusJSON (results @ [v]) vs))))))"

definition getPodsFromDatabase :: "env \<Rightarrow> GetOptions \<Rightarrow> string \<Rightarrow> string list \<Rightarrow> error + Meta list" where
  "getPodsFromDatabase e g resNS resNames =
     (case QueryAllMeta e ''type'' model_ResourceTypePod of
        Inl err \<Rightarrow> Inl err
      | Inr podRecords \<Rightarrow>
          getWithStatusLoop e g model_ResourceTypePod model_ResourceTypePodStatus resNS resNames
            makeMap makeMap [] podRecords)"

definition getNodeFromDatabase :: "env \<Rightarrow> GetOptions \<Rightarrow> string \<Rightarrow> string list \<Rightarrow> error + Meta list" where
  "getNodeFromDatabase e g resNS resNames =
     (case QueryAllMeta e ''type'' model_ResourceTypeNode of
        Inl err \<Rightarrow> Inl err
      | Inr nodeRecords \<Rightarrow>
          getWithStatusLoop e g model_ResourceTypeNode model_ResourceTypeNodeStatus resNS resNames
            makeMap makeMap [] nodeRecords)"

fun getSingleLoop ::
  "env \<Rightarrow> GetOptions \<Rightarrow> string \<Rightarrow> string list \<Rightarrow> Meta list \<Rightarrow> Meta list \<Rightarrow> Meta list" where
  "getSingleLoop e g resNS resNames results [] = results"
| "getSingleLoop e g resNS resNames results (v # vs) =
     (let namespaceParsed = ParseResourceEdge e (Meta.Key v) model_QueryOperation in
      if namespaceParsed \<noteq> resNS \<and> \<not> AllNamespace g then
        getSingleLoop e g resNS resNames results vs
      else if length resNames > 0 \<and> \<not> IsExistName resNames (Meta.Key v) then
        getSingleLoop e g resNS resNames results vs
      else getSingleLoop e g resNS resNames (results @ [v]) vs)"

definition getSingleResourceFromDatabase ::
  "env \<Rightarrow> GetOptions \<Rightarrow> string \<Rightarrow> string list \<Rightarrow> string \<Rightarrow> error + Meta list" where
  "getSingleResourceFromDatabase e g resNS resNames resType =
     (case QueryAllMeta e ''type'' resType of
        Inl err \<Rightarrow> Inl err
      | Inr resRecords \<Rightarrow> Inr (getSingleLoop e g resNS resNames [] resRecords))"

text \<open>The loop over \<open>resTypes\<close> in the \<open>all\<close> case of \<open>QueryDataFromDatabase\<close>.\<close>

fun queryResTypes ::
  "env \<Rightarrow> GetOptions \<Rightarrow> string list \<Rightarrow> Meta list \<Rightarrow> string list \<Rightarrow> error + Meta list" where
  "queryResTypes e g resNames datas [] = Inr datas"
| "queryResTypes e g resNames datas (v # vs) =
     (case getSingleResourceFromDatabase e g (Namespace g) resNames v of
        Inl err \<Rightarrow> Inl err
      | Inr value \<Rightarrow> queryResTypes e g resNames (datas @ value) vs)"

text \<open>
  \<open>QueryDataFromDatabase\<close>: the \<open>switch\<close> on \<open>resType\<close>, its cases in the
  order of the source. (The line it prints first is left out.)
\<close>

definition QueryDataFromDatabase :: "env \<Rightarrow> GetOptions \<Rightarrow> string \<Rightarrow> string list \<Rightarrow> error + Meta list" where
  "QueryDataFromDatabase e g resType resNames =
     (if resType = model_ResourceTypePod then
        (case getPodsFromDatabase e g (Namespace g) resNames of
           Inl err \<Rightarrow> Inl err
         | Inr pods \<Rightarrow> Inr ([] @ pods))
      else if resType = model_ResourceTypeNode then
        (case getNodeFromDatabase e g (Namespace g) resNames of
           Inl err \<Rightarrow> Inl err
         | Inr node \<Rightarrow> Inr ([] @ node))
      else if resType = model_ResourceTypeConfigmap \<or> resType = model_ResourceTypeSecret
              \<or> resType = constants_ResourceTypeEndpoints \<or> resType = constants_ResourceTypeService then
        (case getSingleResourceFromDatabase e g (Namespace g) resNames resType of
           Inl err \<Rightarrow> Inl err
         | Inr value \<Rightarrow> Inr ([] @ value))
      else if resType = ResourceTypeAll then
        (case getPodsFromDatabase e g (Namespace g) resNames of
           Inl err \<Rightarrow> Inl err
         | Inr pods \<Rightarrow>
            (case getNodeFromDatabase e g (Namespace g) resNames of
               Inl err \<Rightarrow> Inl err
             | Inr node \<Rightarrow>
                 queryResTypes e g resNames (([] @ pods) @ node)
                   [model_ResourceTypeConfigmap, model_ResourceTypeSecret,
                    constants_ResourceTypeEndpoints, constants_ResourceTypeService]))
      else Inl (QueryFailed resType (Namespace g)))"

subsection \<open>The selector filter\<close>

text \<open>
  The inner loop of \<open>FilterSelector\<close> over the clauses. The type assertion
  \<open>vLabel.(map[string]interface{})\<close> panics unless \<open>vLabel\<close> is an object;
  it is the right operand of \<open>&&\<close> and so is evaluated only while \<open>flag\<close>
  holds. An interface value equals the string \<open>sl.Value\<close> exactly when
  it holds that string.
\<close>

fun matchLabels :: "json \<Rightarrow> bool \<Rightarrow> Selector list \<Rightarrow> error + bool" where
  "matchLabels vLabel flag [] = Inr flag"
| "matchLabels vLabel flag (sl # sLabels) =
     (if \<not> flag then matchLabels vLabel False sLabels
      else (case vLabel of
              JObject labels \<Rightarrow>
                (if \<not> Exist sl
                 then matchLabels vLabel
                        (mapIndex (Some labels) (Selector.Key sl) \<noteq> JString (Selector.Value sl)) sLabels
                 else matchLabels vLabel
                        (mapIndex (Some labels) (Selector.Key sl) = JString (Selector.Value sl)) sLabels)
            | _ \<Rightarrow> Inl Panic))"

text \<open>
  The loop over the records; \<open>jsonValue\<close> is made once, before the loop.
  \<open>jsonValue["metadata"].(map[string]interface{})\<close> panics unless the
  entry is an object.
\<close>

fun filterLoop :: "env \<Rightarrow> Selector list \<Rightarrow> gomap \<Rightarrow> Meta list \<Rightarrow> Meta list \<Rightarrow> error + Meta list" where
  "filterLoop e sLabels jsonValue results [] = Inr results"
| "filterLoop e sLabels jsonValue results (v # vs) =
     (case UnmarshalMap e (Meta.Value v) jsonValue of
        Inl err \<Rightarrow> Inl err
      | Inr jsonValue \<Rightarrow>
         (case mapIndex jsonValue ''metadata'' of
            JObject metadata \<Rightarrow>
              (let vLabel = mapIndex (Some metadata) ''labels'' in
               if vLabel = JNull then filterLoop e sLabels jsonValue (results @ [v]) vs
               else (case matchLabels vLabel True sLabels of
                       Inl err \<Rightarrow> Inl err
                     | Inr flag \<Rightarrow>
                         if flag then filterLoop e sLabels jsonValue (results @ [v]) vs
                         else filterLoop e sLabels jsonValue results vs))
          | _ \<Rightarrow> Inl Panic))"

definition FilterSelector :: "env \<Rightarrow> Meta list \<Rightarrow> string \<Rightarrow> error + Meta list" where
  "FilterSelector e data selector =
     (case SplitSelectorParameters selector of
        Inl err \<Rightarrow> Inl err
      | Inr sLabels \<Rightarrow> filterLoop e sLabels makeMap [] data)"

subsection \<open>Typed reconstruction\<close>

text \<open>
  A typed object (\<open>v1.Pod\<close>, \<open>api.Service\<close>, ...): the \<open>APIVersion\<close> and
  \<open>Kind\<close> of its \<open>TypeMeta\<close> and the fields the command fills, each under
  the name of the document section it is decoded from. \<open>'t\<close> is the type
  of the decoded field values.
\<close>

datatype 't object = Object (APIVersion: string) (Kind: string) (fields: "(string \<times> 't) list")

text \<open>The five lists that \<open>ParseMetaToAPIList\<close> and \<open>ParseMetaToV1List\<close> return.\<close>

record 't ResourceLists =
  podList :: "'t object list"
  serviceList :: "'t object list"
  secretList :: "'t object list"
  configMapList :: "'t object list"
  endPointsList :: "'t object list"

text \<open>
  For each section in turn, \<open>json.Marshal(value[name])\<close> followed by
  \<open>json.Unmarshal\<close> of that text into the field of a fresh struct of type
  \<open>kind\<close>. \<open>decodeField kind name j\<close> is the field value that the
  library decodes from the JSON value \<open>j\<close>, or its error. The first
  failure is returned.
\<close>

fun decodeSections ::
  "(string \<Rightarrow> string \<Rightarrow> json \<Rightarrow> error + 't) \<Rightarrow> string \<Rightarrow> gomap \<Rightarrow> string list \<Rightarrow>
   error + (string \<times> 't) list" where
  "decodeSections decodeField kind value [] = Inr []"
| "decodeSections decodeField kind value (name # names) =
     (case decodeField kind name (mapIndex value name) of
        Inl err \<Rightarrow> Inl err
      | Inr x \<Rightarrow>
         (case decodeSections decodeField kind value names of
            Inl err \<Rightarrow> Inl err
          | Inr xs \<Rightarrow> Inr ((name, x) # xs)))"

text \<open>
  The loop of \<open>ParseMetaToV1List\<close> and of \<open>ParseMetaToAPIList\<close>, which
  differ in the Go types of the objects only. \<open>value\<close> is made once,
  before the loop, and every record is unmarshalled into it.
\<close>

fun parseMetaLoop ::
  "(string \<Rightarrow> string \<Rightarrow> json \<Rightarrow> error + 't) \<Rightarrow> env \<Rightarrow> gomap \<Rightarrow> 't ResourceLists \<Rightarrow> Meta list \<Rightarrow>
   error + 't ResourceLists" where
  "parseMetaLoop decodeField e value ls [] = Inr ls"
| "parseMetaLoop decodeField e value ls (v # vs) =
     (if Meta.Type v = ResourceTypePod then
        (case UnmarshalMap e (Meta.Value v) value of
           Inl err \<Rightarrow> Inl err
         | Inr value \<Rightarrow>
            (case decodeSections decodeField ''Pod'' value [''metadata'', ''spec'', ''status''] of
               Inl err \<Rightarrow> Inl err
             | Inr fs \<Rightarrow>
                 parseMetaLoop decodeField e value
                   (ls\<lparr>podList := podList ls @ [Object ''v1'' (Meta.Type v) fs]\<rparr>) vs))
      else if Meta.Type v = ResourceTypeService then
        (case UnmarshalMap e (Meta.Value v) value of
           Inl err \<Rightarrow> Inl err
         | Inr value \<Rightarrow>
            (case decodeSections decodeField ''Service'' value [''metadata'', ''spec'', ''status''] of
               Inl err \<Rightarrow> Inl err
             | Inr fs \<Rightarrow>
                 parseMetaLoop decodeField e value
                   (ls\<lparr>serviceList := serviceList ls @ [Object ''v1'' (Meta.Type v) fs]\<rparr>) vs))
      else if Meta.Type v = ResourceTypeSecret then
        (case UnmarshalMap e (Meta.Value v) value of
           Inl err \<Rightarrow> Inl err
         | Inr value \<Rightarrow>
            (case decodeSections decodeField ''Secret'' value [''metadata'', ''data'', ''type''] of
               Inl err \<Rightarrow> Inl err
             | Inr fs \<Rightarrow>
                 parseMetaLoop decodeField e value
                   (ls\<lparr>secretList := secretList ls @ [Object ''v1'' (Meta.Type v) fs]\<rparr>) vs))
      else if Meta.Type v = ResourceTypeConfigmap then
        (case UnmarshalMap e (Meta.Value v) value of
           Inl err \<Rightarrow> Inl err
         | Inr value \<Rightarrow>
            (case decodeSections decodeField ''ConfigMap'' value [''metadata'', ''data''] of
               Inl err \<Rightarrow> Inl err
             | Inr fs \<Rightarrow>
                 parseMetaLoop decodeField e value
                   (ls\<lparr>configMapList := configMapList ls @ [Object ''v1'' (Meta.Type v) fs]\<rparr>) vs))
      else if Meta.Type v = ResourceTypeEndpoints then
        (case UnmarshalMap e (Meta.Value v) value of
           Inl err \<Rightarrow> Inl err
         | Inr value \<Rightarrow>
            (case decodeSections decodeField ''Endpoints'' value [''metadata'', ''subsets''] of
               Inl err \<Rightarrow> Inl err
             | Inr fs \<Rightarrow>
                 parseMetaLoop decodeField e value
                   (ls\<lparr>endPointsList := endPointsList ls @ [Object ''v1'' (Meta.Type v) fs]\<rparr>) vs))
      else Inl (ParsingFailed (Meta.Type v)))"

definition emptyLists :: "'t ResourceLists" where
  "emptyLists = \<lparr>podList = [], serviceList = [], secretList = [], configMapList = [],
                 endPointsList = []\<rparr>"

text \<open>\<open>decodeField\<close> decodes into the types of package \<open>api\<close> here ...\<close>

definition ParseMetaToAPIList ::
  "(string \<Rightarrow> string \<Rightarrow> json \<Rightarrow> error + 'a) \<Rightarrow> env \<Rightarrow> Meta list \<Rightarrow> error + 'a ResourceLists" where
  "ParseMetaToAPIList decodeField e results = parseMetaLoop decodeField e makeMap emptyLists results"

text \<open>... and into the types of package \<open>v1\<close> here.\<close>

definition ParseMetaToV1List ::
  "(string \<Rightarrow> string \<Rightarrow> json \<Rightarrow> error + 'v) \<Rightarrow> env \<Rightarrow> Meta list \<Rightarrow> error + 'v ResourceLists" where
  "ParseMetaToV1List decodeField e results = parseMetaLoop decodeField e makeMap emptyLists results"

subsection \<open>Structured output\<close>

text \<open>
  What \<open>PrintGeneric\<close> hands to the printer: one object, or a list
  container with its kind, its API version and its items.
\<close>

datatype 't printed =
    PrintedObject "'t object"
  | PrintedList string string "'t object list"

text \<open>
  One of the five blocks of \<open>JSONYamlPrint\<close>. \<open>listItems\<close> is \<open>list.Items\<close>
  of the one variable \<open>list\<close> that the function declares first, and \<open>out\<close>
  the objects printed so far. The conversions through \<open>json.Marshal\<close> and
  \<open>runtime.Decode\<close> and the printer itself are taken to succeed.
\<close>

definition printKind ::
  "'t object list \<Rightarrow> 't object list \<times> 't printed list \<Rightarrow> 't object list \<times> 't printed list" where
  "printKind items st =
     (let (listItems, out) = st in
      if length items \<noteq> 0 then
        (if length items \<noteq> 1 then
           (let listItems = listItems @ items
            in (listItems, out @ [PrintedList ''List'' ''v1'' listItems]))
         else (listItems, out @ [PrintedObject (items ! 0)]))
      else (listItems, out))"

definition JSONYamlPrint ::
  "(string \<Rightarrow> string \<Rightarrow> json \<Rightarrow> error + 'v) \<Rightarrow> env \<Rightarrow> Meta list \<Rightarrow> 'v printed list \<Rightarrow>
   error + 'v printed list" where
  "JSONYamlPrint decodeField e results out =
     (case ParseMetaToV1List decodeField e results of
        Inl err \<Rightarrow> Inl err
      | Inr ls \<Rightarrow>
          Inr (snd (printKind (endPointsList ls)
                   (printKind (configMapList ls)
                   (printKind (secretList ls)
                   (printKind (serviceList ls)
                   (printKind (podList ls) ([], out))))))))"

subsection \<open>A sample store\<close>

text \<open>
  The examples below run the command on a store given as a table of rows.
  \<open>tableEnv rows\<close> scans and looks up that table (the lookup returns the
  values of the rows it finds); its namespace parser
  takes the segment of the key before the first separator; its decoder
  knows the sample documents listed here, and agrees with
  \<open>encoding/json\<close> on each of them. No example reaches the encoder,
  which is left trivial.
\<close>

definition column :: "string \<Rightarrow> Meta \<Rightarrow> string" where
  "column c r = (if c = ''key'' then Meta.Key r else if c = ''type'' then Meta.Type r else Meta.Value r)"

definition sampleDecode :: "string \<Rightarrow> json option" where
  \<open>sampleDecode s =
     (if s = ''{}'' then Some (JObject [])
      else if s = ''{"metadata":{"name":"web"}}'' then
        Some (JObject [(''metadata'', JObject [(''name'', JString ''web'')])])
      else if s = ''{"metadata":{"name":"dns"}}'' then
        Some (JObject [(''metadata'', JObject [(''name'', JString ''dns'')])])
      else if s = ''{"metadata":{"name":"cache"}}'' then
        Some (JObject [(''metadata'', JObject [(''name'', JString ''cache'')])])
      else if s = ''{"metadata":{"name":"db"},"status":{"phase":"Running"}}'' then
        Some (JObject [(''metadata'', JObject [(''name'', JString ''db'')]),
                       (''status'', JObject [(''phase'', JString ''Running'')])])
      else if s = ''{"metadata":{"name":"api","labels":{"app":"api"}}}'' then
        Some (JObject [(''metadata'', JObject [(''name'', JString ''api''),
                         (''labels'', JObject [(''app'', JString ''api'')])])])
      else if s = ''{"metadata":{"name":"kv","labels":"none"}}'' then
        Some (JObject [(''metadata'', JObject [(''name'', JString ''kv''),
                         (''labels'', JString ''none'')])])
      else if s = ''{"status":{"phase":"Running"}}'' then
        Some (JObject [(''status'', JObject [(''phase'', JString ''Running'')])])
      else None)\<close>

definition firstSegment :: "string \<Rightarrow> string \<Rightarrow> string" where
  "firstSegment resource operation =
     (case Split resource ''/'' of [] \<Rightarrow> [] | ns # _ \<Rightarrow> ns)"

definition tableEnv :: "Meta list \<Rightarrow> env" where
  "tableEnv rows =
     \<lparr>jsonDecode = sampleDecode,
      jsonEncode = (\<lambda>j. []),
      ParseResourceEdge = firstSegment,
      QueryAllMeta = (\<lambda>c cond. Inr (filter (\<lambda>r. column c r = cond) rows)),
      QueryMeta = (\<lambda>c cond. Inr (map (\<lambda>r. JString (Meta.Value r))
                                       (filter (\<lambda>r. column c r = cond) rows))),
      IsFileExist = (\<lambda>path. True),
      InitDB = (\<lambda>path. None),
      ToLower = (\<lambda>s. s)\<rparr>"

text \<open>
  A field decoder for the examples. It keeps the JSON section as the field
  value, and returns the type error of \<open>json.Unmarshal\<close> for a section
  whose shape the Go field refuses: \<open>metadata\<close>, \<open>spec\<close> and \<open>status\<close> are
  structs (an object, or \<open>null\<close>, which leaves the struct empty); in
  \<open>metadata\<close>, \<open>name\<close> is a string and \<open>labels\<close> a map of strings; in
  the \<open>status\<close> of a pod, \<open>phase\<close> is a string; \<open>data\<close> is a map of
  strings, \<open>type\<close> a string and \<open>subsets\<close> a slice. These are the fields
  that occur in the sample documents, on which it agrees with the library.
\<close>

definition isString :: "json \<Rightarrow> bool" where
  "isString j = (case j of JNull \<Rightarrow> True | JString x \<Rightarrow> True | _ \<Rightarrow> False)"

definition isStruct :: "json \<Rightarrow> bool" where
  "isStruct j = (case j of JNull \<Rightarrow> True | JObject kvs \<Rightarrow> True | _ \<Rightarrow> False)"

definition isSlice :: "json \<Rightarrow> bool" where
  "isSlice j = (case j of JNull \<Rightarrow> True | JArray xs \<Rightarrow> True | _ \<Rightarrow> False)"

definition isStringMap :: "json \<Rightarrow> bool" where
  "isStringMap j =
     (case j of JNull \<Rightarrow> True
      | JObject kvs \<Rightarrow> list_all (\<lambda>kv. isString (snd kv)) kvs
      | _ \<Rightarrow> False)"

definition sampleField :: "string \<Rightarrow> string \<Rightarrow> json \<Rightarrow> error + json" where
  "sampleField kind name j =
     (if name = ''metadata'' then
        (if isStruct j \<and> isString (field j ''name'') \<and> isStringMap (field j ''labels'')
         then Inr j else Inl UnmarshalTypeError)
      else if name = ''status'' then
        (if isStruct j \<and> (if kind = ''Pod'' then isString (field j ''phase'') else True)
         then Inr j else Inl UnmarshalTypeError)
      else if name = ''data'' then
        (if isStringMap j then Inr j else Inl UnmarshalTypeError)
      else if name = ''type'' then
        (if isString j then Inr j else Inl UnmarshalTypeError)
      else if name = ''subsets'' then
        (if isSlice j then Inr j else Inl UnmarshalTypeError)
      else (if isStruct j then Inr j else Inl UnmarshalTypeError))"

text \<open>Sample rows and options.\<close>

definition podDb :: Meta where
  \<open>podDb = \<lparr>Meta.Key = ''default/pod/db'', Type = ''pod'',
             Value = ''{"metadata":{"name":"db"},"status":{"phase":"Running"}}''\<rparr>\<close>

definition podWeb :: Meta where
  \<open>podWeb = \<lparr>Meta.Key = ''default/pod/web'', Type = ''pod'',
              Value = ''{"metadata":{"name":"web"}}''\<rparr>\<close>

definition podCache :: Meta where
  \<open>podCache = \<lparr>Meta.Key = ''default/pod/cache'', Type = ''pod'',
                Value = ''{"metadata":{"name":"cache"}}''\<rparr>\<close>

definition podWebStatus :: Meta where
  \<open>podWebStatus = \<lparr>Meta.Key = ''default/podstatus/web'', Type = ''podstatus'',
                    Value = ''{"status":{"phase":"Running"}}''\<rparr>\<close>

definition nodeEdge :: Meta where
  \<open>nodeEdge = \<lparr>Meta.Key = ''default/node/edge'', Type = ''node'', Value = ''{}''\<rparr>\<close>

definition nodeEdgeStatus :: Meta where
  \<open>nodeEdgeStatus = \<lparr>Meta.Key = ''default/nodestatus/edge'', Type = ''nodestatus'',
                      Value = ''{"status":{"phase":"Running"}}''\<rparr>\<close>

definition svcApi :: Meta where
  \<open>svcApi = \<lparr>Meta.Key = ''default/service/api'', Type = ''service'',
              Value = ''{"metadata":{"name":"api","labels":{"app":"api"}}}''\<rparr>\<close>

definition svcDns :: Meta where
  \<open>svcDns = \<lparr>Meta.Key = ''default/service/dns'', Type = ''service'',
              Value = ''{"metadata":{"name":"dns"}}''\<rparr>\<close>

definition svcKv :: Meta where
  \<open>svcKv = \<lparr>Meta.Key = ''kube/service/kv'', Type = ''service'',
             Value = ''{"metadata":{"name":"kv","labels":"none"}}''\<rparr>\<close>

definition defaultOptions :: GetOptions where
  "defaultOptions =
     \<lparr>AllNamespace = False, Namespace = ''default'', LabelSelector = [],
      DataPath = ''/var/lib/kubeedge/edgecore.db'', OutputFormat = []\<rparr>"

subsection \<open>The specification's notions\<close>

text \<open>
  Selector parsing as the specification words it: the first term that does
  not split in two on its operator fails the parse with that operator's
  error; otherwise the clauses of the terms that have an operator are
  returned, in order.
\<close>

definition spec_symbol :: "string \<Rightarrow> string" where
  "spec_symbol label = (case spec_operator label of None \<Rightarrow> [] | Some (opr, ex) \<Rightarrow> opr)"

definition spec_parse :: "string list \<Rightarrow> error + Selector list" where
  "spec_parse labels =
     (case find (\<lambda>l. \<not> spec_two_sided l) labels of
        None \<Rightarrow> Inr (List.map_filter spec_clause labels)
      | Some l \<Rightarrow> Inl (SelectorError (spec_symbol l)))"

text \<open>
  A record is selected when its namespace is the requested one or all
  namespaces are asked for, and when no names are given or its key
  contains one of them.
\<close>

definition spec_selected :: "env \<Rightarrow> GetOptions \<Rightarrow> string list \<Rightarrow> Meta \<Rightarrow> bool" where
  "spec_selected e g resNames v =
     ((ParseResourceEdge e (Meta.Key v) model_QueryOperation = Namespace g \<or> AllNamespace g)
      \<and> (resNames = [] \<or> (\<exists>n \<in> set resNames. Contains (Meta.Key v) n)))"



text \<open>
  The labels of a record's own document, and the selector filter as the
  specification words it: a record without labels is kept, another one is
  kept when every clause holds of its labels.
\<close>

definition spec_labels :: "env \<Rightarrow> Meta \<Rightarrow> json" where
  "spec_labels e v =
     (case jsonDecode e (Meta.Value v) of
        None \<Rightarrow> JNull
      | Some doc \<Rightarrow> field (field doc ''metadata'') ''labels'')"

definition spec_holds :: "json \<Rightarrow> Selector \<Rightarrow> bool" where
  "spec_holds labels c =
     (if Exist c then field labels (Selector.Key c) = JString (Selector.Value c)
      else field labels (Selector.Key c) \<noteq> JString (Selector.Value c))"

definition spec_keeps :: "env \<Rightarrow> Selector list \<Rightarrow> Meta \<Rightarrow> bool" where
  "spec_keeps e cs v = (spec_labels e v = JNull \<or> list_all (spec_holds (spec_labels e v)) cs)"

text \<open>
  A resource document: an object whose \<open>metadata\<close> is an object, with
  \<open>labels\<close> absent (or \<open>null\<close>) or an object.
\<close>

definition spec_resource :: "env \<Rightarrow> Meta \<Rightarrow> bool" where
  "spec_resource e v =
     (case jsonDecode e (Meta.Value v) of
        Some (JObject kvs) \<Rightarrow>
          (case map_of kvs ''metadata'' of
             Some (JObject md) \<Rightarrow>
               (case map_of md ''labels'' of
                  None \<Rightarrow> True
                | Some JNull \<Rightarrow> True
                | Some (JObject labels) \<Rightarrow> True
                | _ \<Rightarrow> False)
           | _ \<Rightarrow> False)
      | _ \<Rightarrow> False)"

section \<open>Selector parsing: properties\<close>

text \<open>One step of the loop, in the specification's terms.\<close>

lemma splitLabels_Cons:
  "splitLabels sel results (label # labels) =
     (case spec_operator label of
        None \<Rightarrow> splitLabels sel results labels
      | Some (opr, ex) \<Rightarrow>
          if spec_two_sided label
          then splitLabels (the (spec_clause label)) (results @ [the (spec_clause label)]) labels
          else Inl (SelectorError opr))"
  by (cases sel) (simp add: spec_two_sided_def spec_clause_def spec_operator_def Let_def)

lemma splitLabels_spec_parse:
  "splitLabels sel results labels =
     (case spec_parse labels of Inl err \<Rightarrow> Inl err | Inr cs \<Rightarrow> Inr (results @ cs))"
proof (induction labels arbitrary: sel results)
  case Nil
  show ?case by (simp add: spec_parse_def List.map_filter_simps)
next
  case (Cons label labels)
  show ?case
  proof (cases "spec_operator label")
    case None
    then have c: "spec_clause label = None" and t: "spec_two_sided label"
      by (simp_all add: spec_clause_def spec_two_sided_def)
    have "spec_parse (label # labels) = spec_parse labels"
      using c t by (simp add: spec_parse_def List.map_filter_simps split: option.splits)
    with None Cons.IH[of sel results] show ?thesis
      by (simp only: splitLabels_Cons option.case)
  next
    case (Some p)
    obtain opr ex where p: "p = (opr, ex)" by (cases p)
    from Some p obtain c where c: "spec_clause label = Some c"
      by (simp add: spec_clause_def)
    show ?thesis
    proof (cases "spec_two_sided label")
      case True
      have "spec_parse (label # labels) =
              (case spec_parse labels of Inl err \<Rightarrow> Inl err | Inr cs \<Rightarrow> Inr (c # cs))"
        using True c by (simp add: spec_parse_def List.map_filter_simps split: option.splits)
      with Some p c True Cons.IH[of c "results @ [c]"] show ?thesis
        by (simp add: splitLabels_Cons split: sum.splits del: splitLabels.simps)
    next
      case False
      then have "spec_parse (label # labels) = Inl (SelectorError opr)"
        using Some p by (simp add: spec_parse_def spec_symbol_def)
      with Some p False show ?thesis
        by (simp add: splitLabels_Cons del: splitLabels.simps)
    qed
  qed
qed

lemma splitLabels_skip:
  assumes "spec_operator label = None"
  shows "splitLabels sel results (pre @ label # post) = splitLabels sel results (pre @ post)"
proof (induction pre arbitrary: sel results)
  case Nil
  from assms show ?case by (simp only: append_Nil splitLabels_Cons option.case)
next
  case (Cons a pre)
  show ?case
    by (simp only: append_Cons splitLabels_Cons Cons.IH)
qed

text \<open>
  Claim C6, as the code has it. The expression is split on \<open>,\<close>; each term
  is decided by the first of \<open>==\<close>, \<open>!=\<close>, \<open>=\<close> that it contains (\<open>==\<close> and
  \<open>=\<close> give \<open>Exist = True\<close>, \<open>!=\<close> gives \<open>Exist = False\<close>); the parse fails
  with the selector error of the first term that does not split into
  exactly two sides on its operator, and otherwise returns the clauses in
  order. Nothing asks the two sides to be non-empty.
\<close>

theorem SplitSelectorParameters_spec:
  "SplitSelectorParameters args = spec_parse (Split args '','')"
  by (simp add: SplitSelectorParameters_def splitLabels_spec_parse split: sum.splits)

text \<open>The theorem at an expression whose third term has two \<open>=\<close>.\<close>

theorem SplitSelectorParameters_spec_witness:
  "SplitSelectorParameters ''a==b,c!=,d=e=f'' = Inl (SelectorError ''='')
   \<and> spec_parse (Split ''a==b,c!=,d=e=f'' '','') = Inl (SelectorError ''='')"
  using SplitSelectorParameters_spec [of "''a==b,c!=,d=e=f''"]
  by (simp add: SplitSelectorParameters_def Split_def)

text \<open>
  Claim C6 as the specification states it fails: the term \<open>a==\<close> contains
  an operator and its right side is empty, and the parse succeeds with a
  clause whose value is the empty string.
\<close>

theorem SplitSelectorParameters_empty_side:
  "Contains ''a=='' ''==''
   \<and> Split ''a=='' ''=='' = [''a'', []]
   \<and> SplitSelectorParameters ''a=='' = Inr [\<lparr>Selector.Key = ''a'', Selector.Value = [], Exist = True\<rparr>]"
  by (simp add: SplitSelectorParameters_def Split_def)

text \<open>
  Claim C10. A term of the expression that contains none of \<open>==\<close>, \<open>!=\<close>,
  \<open>=\<close> is ignored: the parse returns what it returns for the other terms
  alone, so the term raises no error and adds no clause.
\<close>

theorem SplitSelectorParameters_ignores_term:
  assumes "Split args '','' = pre @ label # post"
    and "\<not> Contains label ''==''" and "\<not> Contains label ''!=''" and "\<not> Contains label ''=''"
  shows "SplitSelectorParameters args =
           splitLabels \<lparr>Selector.Key = [], Selector.Value = [], Exist = False\<rparr> [] (pre @ post)"
proof -
  from assms(2-4) have "spec_operator label = None"
    by (simp add: spec_operator_def)
  then show ?thesis
    by (simp only: SplitSelectorParameters_def assms(1) splitLabels_skip)
qed

text \<open>The bare word \<open>foo\<close> between a clause and the empty term of a trailing comma.\<close>

theorem SplitSelectorParameters_ignores_term_witness:
  "Split ''a=b,foo,'' '','' = [''a=b''] @ ''foo'' # [[]]
   \<and> \<not> Contains ''foo'' ''=='' \<and> \<not> Contains ''foo'' ''!='' \<and> \<not> Contains ''foo'' ''=''
   \<and> SplitSelectorParameters ''a=b,foo,'' =
        splitLabels \<lparr>Selector.Key = [], Selector.Value = [], Exist = False\<rparr> [] ([''a=b''] @ [[]])
   \<and> SplitSelectorParameters ''a=b,foo,'' = Inr [\<lparr>Selector.Key = ''a'', Selector.Value = ''b'', Exist = True\<rparr>]"
proof -
  have s: "Split ''a=b,foo,'' '','' = [''a=b''] @ ''foo'' # [[]]"
    by (simp add: Split_def)
  have c: "\<not> Contains ''foo'' ''==''" "\<not> Contains ''foo'' ''!=''" "\<not> Contains ''foo'' ''=''"
    by simp_all
  show ?thesis
    using s c SplitSelectorParameters_ignores_term [OF s c]
    by (simp add: Split_def)
qed

section \<open>Record retrieval: properties\<close>

lemma IsExistName_fold:
  "foldl (\<lambda>value v. if Contains name v then True else value) b resNames =
     (b \<or> (\<exists>n \<in> set resNames. Contains name n))"
  by (induction resNames arbitrary: b) auto

lemma IsExistName_iff: "IsExistName resNames name = (\<exists>n \<in> set resNames. Contains name n)"
  by (simp add: IsExistName_def IsExistName_fold)

lemma storeMap_array: "storeMap (JArray xs) m = Inl UnmarshalTypeError"
  by (simp add: storeMap_def)








lemmas resourceTypes =
  model_ResourceTypePod_def model_ResourceTypeNode_def
  model_ResourceTypeConfigmap_def model_ResourceTypeSecret_def ResourceTypeAll_def
  constants_ResourceTypeEndpoints_def constants_ResourceTypeService_def




text \<open>Evaluation on the sample store.\<close>

lemmas sampleRows =
  podDb_def podWeb_def podCache_def podWebStatus_def nodeEdge_def nodeEdgeStatus_def svcApi_def
  svcDns_def svcKv_def

lemmas tableEnv_simps =
  tableEnv_def column_def firstSegment_def Split_def sampleDecode_def defaultOptions_def




lemmas retrieval_defs =
  QueryDataFromDatabase_def getPodsFromDatabase_def getNodeFromDatabase_def
  getSingleResourceFromDatabase_def resourceTypes model_ResourceTypePodStatus_def
  model_ResourceTypeNodeStatus_def constants_ResourceSep_def model_QueryOperation_def
  makeMap_def Let_def

text \<open>
  When the lookup of the status key finds a row for a selected record, the
  loop stops with an error: the slice of status records is marshalled as
  a whole, the text is a JSON array, and a JSON array does not unmarshal
  into a map.
\<close>

lemma getWithStatusLoop_status_found:
  assumes "spec_selected e g resNames v"
    and "QueryMeta e ''key'' (ReplaceFirst (Meta.Key v)
           (constants_ResourceSep @ resType @ constants_ResourceSep)
           (constants_ResourceSep @ statusType @ constants_ResourceSep)) = Inr (s # ss)"
  shows "\<exists>err. getWithStatusLoop e g resType statusType (Namespace g) resNames resJSON statusJSON
                 results (v # vs) = Inl err"
proof -
  from assms(1) have sel:
      "\<not> (ParseResourceEdge e (Meta.Key v) model_QueryOperation \<noteq> Namespace g \<and> \<not> AllNamespace g)"
      "\<not> (length resNames > 0 \<and> \<not> IsExistName resNames (Meta.Key v))"
    by (auto simp: spec_selected_def IsExistName_iff)
  show ?thesis
    using sel assms(2) by (auto simp: Let_def storeMap_array split: sum.splits)
qed

text \<open>
  When no record of the scan has a status row, the loop returns the
  selected records as they are.
\<close>

lemma getWithStatusLoop_no_status:
  assumes "\<forall>v \<in> set vs. QueryMeta e ''key'' (ReplaceFirst (Meta.Key v)
             (constants_ResourceSep @ resType @ constants_ResourceSep)
             (constants_ResourceSep @ statusType @ constants_ResourceSep)) = Inr []"
  shows "getWithStatusLoop e g resType statusType (Namespace g) resNames resJSON statusJSON results vs
           = Inr (results @ filter (spec_selected e g resNames) vs)"
  using assms
  by (induction vs arbitrary: results)
     (auto simp: spec_selected_def IsExistName_iff Let_def)

text \<open>
  Claim C1: a pod or node record that has a status record is returned with
  the \<open>status\<close> of that record merged into its document, and a record
  without one is returned as it is. The code does the second and not the
  first. In a store that holds the pod \<open>default/pod/web\<close> and its status
  row \<open>default/podstatus/web\<close>, the lookup finds the status value and the
  query ends with the type error of \<open>json.Unmarshal\<close>; the same happens
  for a node with a status row; without the status row the pod is
  returned unchanged.
\<close>

theorem getPodsFromDatabase_status_record:
  "QueryMeta (tableEnv [podWeb, podWebStatus]) ''key'' ''default/podstatus/web''
     = Inr [JString (Meta.Value podWebStatus)]
   \<and> getPodsFromDatabase (tableEnv [podWeb, podWebStatus]) defaultOptions ''default'' []
     = Inl UnmarshalTypeError
   \<and> getNodeFromDatabase (tableEnv [nodeEdge, nodeEdgeStatus]) defaultOptions ''default'' []
     = Inl UnmarshalTypeError
   \<and> getPodsFromDatabase (tableEnv [podWeb]) defaultOptions ''default'' [] = Inr [podWeb]"
  by (simp add: retrieval_defs tableEnv_simps sampleRows UnmarshalMap_def storeMap_def)

section \<open>Resource types: properties\<close>

lemma IsAvailableResources_iff:
  "IsAvailableResources rsT =
     (rsT \<in> set [''all'', ''po'', ''pod'', ''pods'', ''svc'', ''service'', ''services'', ''secret'',
                  ''secrets'', ''cm'', ''configmap'', ''configmaps'', ''ep'', ''endpoint'',
                  ''endpoints''])"
  by (simp add: IsAvailableResources_def availableResources_def)

text \<open>A first argument outside the table fails the validation.\<close>

lemma Validate_unrecognized:
  "args \<noteq> [] \<Longrightarrow> \<not> IsAvailableResources (args ! 0)
   \<Longrightarrow> Validate e g args = Inl (UnrecognizedResourceType (args ! 0))"
  by (simp add: Validate_def)

text \<open>
  The nine keys of the table that are not the name of a type pass the
  validation and are then refused by the \<open>switch\<close> of the query, which
  compares the argument itself with the type names and never looks it up
  in the table.
\<close>

lemma alias_not_dispatched:
  assumes "a \<in> set [''po'', ''pods'', ''svc'', ''services'', ''secrets'', ''cm'', ''configmaps'',
                     ''ep'', ''endpoint'']"
  shows "IsAvailableResources a
         \<and> QueryDataFromDatabase e g a resNames = Inl (QueryFailed a (Namespace g))"
  using assms
  by (auto simp: IsAvailableResources_def availableResources_def QueryDataFromDatabase_def
        resourceTypes)

text \<open>
  Claim C4: every key of the alias table is accepted by the validation and
  resolved by the query to its resource type. The code accepts \<open>po\<close> and
  then fails the query for it, in every store and with every option; so
  it does for \<open>svc\<close>.
\<close>

theorem alias_po_query_fails:
  "IsAvailableResources ''po''
   \<and> Validate (tableEnv [podWeb]) defaultOptions [''po''] = Inr defaultOptions
   \<and> QueryDataFromDatabase e g ''po'' resNames = Inl (QueryFailed ''po'' (Namespace g))
   \<and> QueryDataFromDatabase e g ''svc'' resNames = Inl (QueryFailed ''svc'' (Namespace g))"
  by (simp add: IsAvailableResources_def availableResources_def QueryDataFromDatabase_def
        resourceTypes Validate_def tableEnv_def defaultOptions_def)

section \<open>The selector filter: properties\<close>

text \<open>
  Unmarshalling an object into a map variable: the entries of the document
  come first, the entries the variable held before are kept for the other
  keys.
\<close>

lemma mapIndex_merge:
  "mapIndex (Some (AList.merge old kvs)) k =
     (case map_of kvs k of None \<Rightarrow> mapIndex (Some old) k | Some v \<Rightarrow> v)"
  by (simp add: mapIndex_def merge_conv' map_add_def split: option.splits)

lemma UnmarshalMap_object:
  assumes "jsonDecode e s = Some (JObject kvs)"
  shows "UnmarshalMap e s m = Inr (Some (AList.merge (case m of None \<Rightarrow> [] | Some old \<Rightarrow> old) kvs))"
  using assms by (simp add: UnmarshalMap_def storeMap_def)

lemma field_mapIndex: "mapIndex (Some kvs) k = field (JObject kvs) k"
  by (simp add: mapIndex_def)

text \<open>The clause loop on a labels object: the conjunction of the clauses.\<close>

lemma matchLabels_object:
  "matchLabels (JObject labels) flag cs =
     Inr (flag \<and> list_all (spec_holds (JObject labels)) cs)"
  by (induction cs arbitrary: flag) (auto simp: spec_holds_def field_mapIndex)

lemma spec_resourceD:
  assumes "spec_resource e v"
  shows "\<exists>kvs md. jsonDecode e (Meta.Value v) = Some (JObject kvs)
           \<and> map_of kvs ''metadata'' = Some (JObject md)
           \<and> (field (JObject md) ''labels'' = JNull
                \<or> (\<exists>labels. field (JObject md) ''labels'' = JObject labels))"
proof (cases "jsonDecode e (Meta.Value v)")
  case None
  with assms show ?thesis by (simp add: spec_resource_def)
next
  case (Some doc)
  show ?thesis
  proof (cases doc)
    case (JObject kvs)
    show ?thesis
    proof (cases "map_of kvs ''metadata''")
      case None
      with assms Some JObject show ?thesis by (simp add: spec_resource_def)
    next
      case md: (Some m)
      show ?thesis
      proof (cases m)
        case obj: (JObject md)
        show ?thesis
        proof (cases "map_of md ''labels''")
          case None
          with Some JObject md obj show ?thesis by simp
        next
          case l: (Some lv)
          with assms Some JObject md obj show ?thesis
            by (cases lv) (simp_all add: spec_resource_def)
        qed
      qed (use assms Some JObject md in \<open>simp_all add: spec_resource_def\<close>)
    qed
  qed (use assms Some in \<open>simp_all add: spec_resource_def\<close>)
qed


lemma filterLoop_Cons_resource:
  assumes u: "UnmarshalMap e (Meta.Value v) jsonValue = Inr jv"
    and md: "mapIndex jv ''metadata'' = JObject md"
  shows "filterLoop e cs jsonValue results (v # vs) =
           (if field (JObject md) ''labels'' = JNull then filterLoop e cs jv (results @ [v]) vs
            else (case matchLabels (field (JObject md) ''labels'') True cs of
                    Inl err \<Rightarrow> Inl err
                  | Inr flag \<Rightarrow> if flag then filterLoop e cs jv (results @ [v]) vs
                                else filterLoop e cs jv results vs))"
  by (simp add: u md field_mapIndex Let_def)

text \<open>
  On resource documents the map variable that the loop shares between the
  records does not matter: every document brings its own \<open>metadata\<close>.
\<close>

lemma filterLoop_resources:
  assumes "\<forall>v \<in> set data. spec_resource e v"
  shows "filterLoop e cs jsonValue results data = Inr (results @ filter (spec_keeps e cs) data)"
  using assms
proof (induction data arbitrary: jsonValue results)
  case Nil
  then show ?case by simp
next
  case (Cons v vs)
  from Cons.prems have r: "spec_resource e v" and rest: "\<forall>v \<in> set vs. spec_resource e v"
    by simp_all
  from spec_resourceD[OF r] obtain kvs md where
    d: "jsonDecode e (Meta.Value v) = Some (JObject kvs)"
    and m: "map_of kvs ''metadata'' = Some (JObject md)"
    and l: "field (JObject md) ''labels'' = JNull
            \<or> (\<exists>labels. field (JObject md) ''labels'' = JObject labels)"
    by blast
  define jv where "jv = Some (AList.merge (case jsonValue of None \<Rightarrow> [] | Some old \<Rightarrow> old) kvs)"
  have u: "UnmarshalMap e (Meta.Value v) jsonValue = Inr jv"
    using d by (simp add: UnmarshalMap_object jv_def)
  have md: "mapIndex jv ''metadata'' = JObject md"
    using m by (simp add: jv_def mapIndex_merge)
  have lab: "spec_labels e v = field (JObject md) ''labels''"
    using d m by (simp add: spec_labels_def)
  note step = filterLoop_Cons_resource[OF u md]
  from l show ?case
  proof
    assume none: "field (JObject md) ''labels'' = JNull"
    then have "spec_keeps e cs v" by (simp add: spec_keeps_def lab)
    with none Cons.IH[OF rest, of jv "results @ [v]"] show ?thesis
      by (simp add: step del: filterLoop.simps field.simps)
  next
    assume "\<exists>labels. field (JObject md) ''labels'' = JObject labels"
    then obtain labels where obj: "field (JObject md) ''labels'' = JObject labels" ..
    then have k: "spec_keeps e cs v = list_all (spec_holds (JObject labels)) cs"
      by (simp add: spec_keeps_def lab)
    show ?thesis
      using obj k Cons.IH[OF rest, of jv "results @ [v]"] Cons.IH[OF rest, of jv results]
      by (simp add: step matchLabels_object del: filterLoop.simps field.simps)
  qed
qed

text \<open>
  On records whose documents are resource documents, the filter returns
  the selector's parse error, or else exactly the records that
  \<open>spec_keeps\<close> keeps, in order: a record without a labels section (absent
  or \<open>null\<close>) is kept whatever the clauses are; a record with labels is
  kept iff every clause holds, where \<open>K==V\<close> and \<open>K=V\<close> hold when label
  \<open>K\<close> is present with the string value \<open>V\<close> and \<open>K!=V\<close> holds when it
  is not (so also when \<open>K\<close> is absent).
\<close>

lemma FilterSelector_keeps:
  assumes "\<forall>v \<in> set data. spec_resource e v"
  shows "FilterSelector e data selector =
           (case SplitSelectorParameters selector of
              Inl err \<Rightarrow> Inl err
            | Inr cs \<Rightarrow> Inr (filter (spec_keeps e cs) data))"
  using filterLoop_resources[OF assms]
  by (simp add: FilterSelector_def split: sum.splits)

text \<open>
  A first record whose document is an object without \<open>metadata\<close> makes
  the filter panic, whatever the selector's clauses are.
\<close>

lemma FilterSelector_no_metadata:
  assumes "SplitSelectorParameters selector = Inr cs"
    and "jsonDecode e (Meta.Value v) = Some (JObject kvs)"
    and "map_of kvs ''metadata'' = None"
  shows "FilterSelector e (v # data) selector = Inl Panic"
  using assms
  by (simp add: FilterSelector_def makeMap_def UnmarshalMap_def storeMap_def mapIndex_def
        merge_conv' map_add_def)

text \<open>
  Claim C9: on records whose value is valid JSON the filter returns a
  list or an error and never crashes. The code panics on the document
  \<open>{}\<close>, which has no \<open>metadata\<close> (the type assertion on
  \<open>jsonValue["metadata"]\<close>), and on a document whose \<open>labels\<close> is the
  string \<open>"none"\<close> (the type assertion on \<open>vLabel\<close>).
\<close>

theorem FilterSelector_panics:
  "FilterSelector (tableEnv []) [nodeEdge] ''a=b'' = Inl Panic
   \<and> FilterSelector (tableEnv []) [svcKv] ''app=api'' = Inl Panic"
  by (simp add: FilterSelector_def makeMap_def UnmarshalMap_def storeMap_def mapIndex_def
        SplitSelectorParameters_def Split_def tableEnv_def sampleDecode_def sampleRows)

text \<open>
  Claim C5: the filter keeps a record iff every clause holds of the labels
  of the record's own document, and keeps a record whose document has no
  labels section whatever the clauses are. The code does so on resource
  documents (\<open>FilterSelector_keeps\<close>) and not on every record. The map
  \<open>jsonValue\<close> is shared by all records and keeps the \<open>metadata\<close> of the
  document before: the node's document \<open>{}\<close> has no labels section, and
  after the service labelled \<open>app: api\<close> it is judged by that label. It
  is dropped by \<open>app!=api\<close>, and kept by \<open>app==api\<close> only because the
  service is.
\<close>

theorem FilterSelector_drops_record_without_labels:
  "jsonDecode (tableEnv []) (Meta.Value nodeEdge) = Some (JObject [])
   \<and> spec_labels (tableEnv []) nodeEdge = JNull
   \<and> spec_labels (tableEnv []) svcApi = JObject [(''app'', JString ''api'')]
   \<and> FilterSelector (tableEnv []) [svcApi, nodeEdge] ''app!=api'' = Inr []
   \<and> FilterSelector (tableEnv []) [svcApi, nodeEdge] ''app==api'' = Inr [svcApi, nodeEdge]"
  by (simp add: FilterSelector_def makeMap_def UnmarshalMap_def storeMap_def mapIndex_def
        spec_labels_def SplitSelectorParameters_def Split_def tableEnv_def sampleDecode_def
        sampleRows)

text \<open>
  A service labelled \<open>app: api\<close> and a pod without labels, under four
  selectors: the pod is always kept; the service is dropped by
  \<open>app!=api\<close> and by \<open>tier=db\<close> (the label \<open>tier\<close> is absent), and kept
  by \<open>app==api\<close> and by \<open>tier!=db\<close>.
\<close>

lemma sample_resources:
  "spec_resource (tableEnv []) svcApi" "spec_resource (tableEnv []) podWeb"
  by (simp_all add: spec_resource_def tableEnv_def sampleDecode_def sampleRows)

lemma FilterSelector_keeps_sample:
  "spec_resource (tableEnv []) svcApi \<and> spec_resource (tableEnv []) podWeb
   \<and> FilterSelector (tableEnv []) [svcApi, podWeb] ''app!=api'' = Inr [podWeb]
   \<and> FilterSelector (tableEnv []) [svcApi, podWeb] ''app==api'' = Inr [svcApi, podWeb]
   \<and> FilterSelector (tableEnv []) [svcApi, podWeb] ''tier!=db'' = Inr [svcApi, podWeb]
   \<and> FilterSelector (tableEnv []) [svcApi, podWeb] ''tier=db'' = Inr [podWeb]"
proof -
  have r: "\<forall>v \<in> set [svcApi, podWeb]. spec_resource (tableEnv []) v"
    using sample_resources by simp
  have k: "spec_labels (tableEnv []) svcApi = JObject [(''app'', JString ''api'')]"
    "spec_labels (tableEnv []) podWeb = JNull"
    by (simp_all add: spec_labels_def tableEnv_def sampleDecode_def sampleRows)
  show ?thesis
    using FilterSelector_keeps [OF r, of "''app!=api''"] FilterSelector_keeps [OF r, of "''app==api''"]
      FilterSelector_keeps [OF r, of "''tier!=db''"] FilterSelector_keeps [OF r, of "''tier=db''"]
      sample_resources
    by (simp add: SplitSelectorParameters_def Split_def spec_keeps_def spec_holds_def k)
qed

section \<open>Typed reconstruction and structured output: properties\<close>

lemmas parse_defs =
  ParseMetaToV1List_def ParseMetaToAPIList_def emptyLists_def makeMap_def UnmarshalMap_def
  storeMap_def mapIndex_def sampleField_def isString_def isStruct_def isSlice_def isStringMap_def
  ResourceTypePod_def ResourceTypeService_def
  ResourceTypeSecret_def ResourceTypeConfigmap_def ResourceTypeEndpoints_def

text \<open>A record of a type outside the five of the \<open>switch\<close> stops the loop.\<close>

lemma parseMetaLoop_unrecognized:
  assumes "Meta.Type v \<notin> set [''pod'', ''service'', ''secret'', ''configmap'', ''endpoints'']"
  shows "parseMetaLoop decodeField e value ls (v # vs) = Inl (ParsingFailed (Meta.Type v))"
  using assms
  by (simp add: ResourceTypePod_def ResourceTypeService_def ResourceTypeSecret_def
        ResourceTypeConfigmap_def ResourceTypeEndpoints_def)

text \<open>
  Claim C2: both reconstruction passes handle the six kinds, node records
  included. The \<open>switch\<close> of either pass has five cases and no case for
  \<open>node\<close>: a list that starts with a node record fails with the
  unrecognized-type error, whatever the store, the decoders and the rest of
  the list are. The query for \<open>all\<close> returns such a list from a store
  that holds a node, and the structured output of that list fails.
\<close>

theorem node_records_not_reconstructed:
  "ParseMetaToV1List decodeV1 e (\<lparr>Meta.Key = k, Type = model_ResourceTypeNode, Value = x\<rparr> # rest)
     = Inl (ParsingFailed ''node'')
   \<and> ParseMetaToAPIList decodeAPI e (\<lparr>Meta.Key = k, Type = model_ResourceTypeNode, Value = x\<rparr> # rest)
     = Inl (ParsingFailed ''node'')
   \<and> QueryDataFromDatabase (tableEnv [nodeEdge]) defaultOptions ''all'' [] = Inr [nodeEdge]
   \<and> JSONYamlPrint sampleField (tableEnv [nodeEdge]) [nodeEdge] [] = Inl (ParsingFailed ''node'')"
  by (simp add: parse_defs JSONYamlPrint_def retrieval_defs tableEnv_simps sampleRows)

text \<open>
  Claim C8: the object built for a record is the one built for that record
  alone. The map \<open>value\<close> is shared by all records, and unmarshalling a
  document into it keeps the entries of the documents before: the pod
  \<open>web\<close>, whose document has no \<open>status\<close>, gets the status of the pod
  \<open>db\<close> when it follows it, and an empty status alone. Both passes do
  the same.
\<close>

theorem stale_status_in_second_pod:
  "ParseMetaToV1List sampleField (tableEnv []) [podDb, podWeb] =
     Inr \<lparr>podList =
            [Object ''v1'' ''pod''
               [(''metadata'', JObject [(''name'', JString ''db'')]),
                (''spec'', JNull),
                (''status'', JObject [(''phase'', JString ''Running'')])],
             Object ''v1'' ''pod''
               [(''metadata'', JObject [(''name'', JString ''web'')]),
                (''spec'', JNull),
                (''status'', JObject [(''phase'', JString ''Running'')])]],
          serviceList = [], secretList = [], configMapList = [], endPointsList = []\<rparr>
   \<and> ParseMetaToV1List sampleField (tableEnv []) [podWeb] =
     Inr \<lparr>podList =
            [Object ''v1'' ''pod''
               [(''metadata'', JObject [(''name'', JString ''web'')]),
                (''spec'', JNull),
                (''status'', JNull)]],
          serviceList = [], secretList = [], configMapList = [], endPointsList = []\<rparr>
   \<and> ParseMetaToAPIList sampleField (tableEnv []) [podDb, podWeb] =
       ParseMetaToV1List sampleField (tableEnv []) [podDb, podWeb]"
  by (simp add: parse_defs tableEnv_def sampleDecode_def sampleRows)

text \<open>The three ways of a block of \<open>JSONYamlPrint\<close>.\<close>

lemma printKind_many:
  "2 \<le> length items \<Longrightarrow>
   printKind items (listItems, out) =
     (listItems @ items, out @ [PrintedList ''List'' ''v1'' (listItems @ items)])"
  by (auto simp: printKind_def Let_def)

lemma printKind_one:
  "printKind [item] (listItems, out) = (listItems, out @ [PrintedObject item])"
  by (simp add: printKind_def)

lemma printKind_none:
  "printKind [] (listItems, out) = (listItems, out)"
  by (simp add: printKind_def)

text \<open>
  The sample decoder refuses the service whose \<open>labels\<close> is a string, as
  \<open>json.Unmarshal\<close> into \<open>ObjectMeta\<close> does: nothing is printed for it.
\<close>

lemma JSONYamlPrint_refuses_string_labels:
  "JSONYamlPrint sampleField (tableEnv []) [svcApi, svcKv] [] = Inl UnmarshalTypeError"
  by (simp add: JSONYamlPrint_def printKind_def Let_def parse_defs tableEnv_def sampleDecode_def
        sampleRows)

text \<open>
  Claim C3: a kind with one item is printed as that object, and a kind with
  two or more as a \<open>List\<close> of version \<open>v1\<close> whose items are those of the
  kind. The items are appended to the one \<open>list\<close> of the function, which
  is never emptied: with two pods and two services, the container printed
  for the services holds the two pods as well. With one pod, the pod is
  printed alone and the container of the services holds the services.
\<close>

theorem list_container_holds_earlier_kind:
  "JSONYamlPrint sampleField (tableEnv []) [podWeb, podCache, svcApi, svcDns] [] =
     Inr [PrintedList ''List'' ''v1''
            [Object ''v1'' ''pod''
               [(''metadata'', JObject [(''name'', JString ''web'')]),
                (''spec'', JNull), (''status'', JNull)],
             Object ''v1'' ''pod''
               [(''metadata'', JObject [(''name'', JString ''cache'')]),
                (''spec'', JNull), (''status'', JNull)]],
          PrintedList ''List'' ''v1''
            [Object ''v1'' ''pod''
               [(''metadata'', JObject [(''name'', JString ''web'')]),
                (''spec'', JNull), (''status'', JNull)],
             Object ''v1'' ''pod''
               [(''metadata'', JObject [(''name'', JString ''cache'')]),
                (''spec'', JNull), (''status'', JNull)],
             Object ''v1'' ''service''
               [(''metadata'', JObject [(''name'', JString ''api''),
                                        (''labels'', JObject [(''app'', JString ''api'')])]),
                (''spec'', JNull), (''status'', JNull)],
             Object ''v1'' ''service''
               [(''metadata'', JObject [(''name'', JString ''dns'')]),
                (''spec'', JNull), (''status'', JNull)]]]
   \<and> JSONYamlPrint sampleField (tableEnv []) [podWeb, svcApi, svcDns] [] =
     Inr [PrintedObject
            (Object ''v1'' ''pod''
               [(''metadata'', JObject [(''name'', JString ''web'')]),
                (''spec'', JNull), (''status'', JNull)]),
          PrintedList ''List'' ''v1''
            [Object ''v1'' ''service''
               [(''metadata'', JObject [(''name'', JString ''api''),
                                        (''labels'', JObject [(''app'', JString ''api'')])]),
                (''spec'', JNull), (''status'', JNull)],
             Object ''v1'' ''service''
               [(''metadata'', JObject [(''name'', JString ''dns'')]),
                (''spec'', JNull), (''status'', JNull)]]]"
  by (simp add: JSONYamlPrint_def printKind_def Let_def parse_defs tableEnv_def sampleDecode_def
        sampleRows)

end
